theory Spec2Isabelle
  imports Complex_Main
begin

section \<open>The consensus node of workshop-5\<close>

text \<open>
  The repository holds two copies of the node: \<^verbatim>\<open>src/nodes/node.ts\<close> and a second
  file whose name is not known (\<^verbatim>\<open>part_000\<close>). Their handlers are the same code up to
  the name of the state variable and up to the string tags of the messages:
  \<^item> \<^verbatim>\<open>node.ts\<close> handles \<^verbatim>\<open>"Propose"\<close> and \<^verbatim>\<open>"Vote"\<close>, and sends \<^verbatim>\<open>"2P"\<close> and \<^verbatim>\<open>"2V"\<close>;
  \<^item> \<^verbatim>\<open>part_000\<close> handles and sends \<^verbatim>\<open>"propose"\<close> and \<^verbatim>\<open>"vote"\<close>.
  The model below is one embedding of the handlers, indexed by the file.
\<close>

subsection \<open>Data\<close>

text \<open>\<^verbatim>\<open>Value = 0 | 1 | "?"\<close>; the \<^verbatim>\<open>null\<close> of the state record is \<open>None\<close>.\<close>

datatype val = Zero | One | Ambiguous

text \<open>\<^verbatim>\<open>type NodeState = { killed; x; decided; k }\<close>\<close>

record NodeState =
  killed :: bool
  x :: "val option"
  decided :: "bool option"
  k :: "int option"

text \<open>The body of a request to \<^verbatim>\<open>/message\<close>: \<^verbatim>\<open>{ k, x, type }\<close>.\<close>

record message =
  msg_k :: int
  msg_x :: val
  msg_type :: string

text \<open>The parameters of \<^verbatim>\<open>node(nodeId, N, F, initialValue, isFaulty, ...)\<close>.\<close>

record params =
  nodeId :: int
  N :: int
  F :: int
  initialValue :: val
  isFaulty :: bool

text \<open>
  The mutable variables of the closure: the two tallies (\<^verbatim>\<open>Map<number, Value[]>\<close>)
  and the state record.
\<close>

record node =
  proposals :: "int \<rightharpoonup> val list"
  votes :: "int \<rightharpoonup> val list"
  currentState :: NodeState

datatype source = Node_ts | Part_000

fun handledPropose :: "source \<Rightarrow> string" where
  "handledPropose Node_ts = ''Propose''"
| "handledPropose Part_000 = ''propose''"

fun handledVote :: "source \<Rightarrow> string" where
  "handledVote Node_ts = ''Vote''"
| "handledVote Part_000 = ''vote''"

fun sentPropose :: "source \<Rightarrow> string" where
  "sentPropose Node_ts = ''2P''"
| "sentPropose Part_000 = ''propose''"

fun sentVote :: "source \<Rightarrow> string" where
  "sentVote Node_ts = ''2V''"
| "sentVote Part_000 = ''vote''"

subsection \<open>Sending\<close>

text \<open>
  \<^verbatim>\<open>for (let i = 0; i < N; i++) fetch(`http://localhost:${BASE_NODE_PORT + i}/message`, body)\<close>:
  one request per index \<open>0, \<dots>, N - 1\<close>, each with the same body. A request is
  the pair of the index of its receiver and its body; the answers are never read.
\<close>

definition broadcast :: "params \<Rightarrow> message \<Rightarrow> (int \<times> message) list" where
  "broadcast p m = map (\<lambda>i. (i, m)) [0 .. N p - 1]"

subsection \<open>The tallies\<close>

text \<open>
  \<^verbatim>\<open>if (!t.has(k)) t.set(k, []); t.get(k)!.push(x); const tally = t.get(k)!;\<close>
\<close>

definition pushed :: "(int \<rightharpoonup> val list) \<Rightarrow> int \<Rightarrow> val \<Rightarrow> val list" where
  "pushed t r v = (case t r of None \<Rightarrow> [] | Some l \<Rightarrow> l) @ [v]"

text \<open>\<^verbatim>\<open>tally.filter((x) => x == 0).length\<close> and \<^verbatim>\<open>tally.filter((x) => x == 1).length\<close>\<close>

definition CN :: "val list \<Rightarrow> nat" where
  "CN tally = length (filter (\<lambda>v. v = Zero) tally)"

definition CY :: "val list \<Rightarrow> nat" where
  "CY tally = length (filter (\<lambda>v. v = One) tally)"

text \<open>\<^verbatim>\<open>Math.random() > 0.5 ? 0 : 1\<close>, the draw \<open>rnd\<close> being an input of the handler.\<close>

definition coin :: "real \<Rightarrow> val" where
  "coin rnd = (if rnd > 1 / 2 then Zero else One)"

subsection \<open>The handler of \<^verbatim>\<open>/message\<close>\<close>

text \<open>
  The body of a request is taken well-formed: \<open>k\<close> an integer, \<open>x\<close> a \<^verbatim>\<open>Value\<close>,
  \<open>type\<close> a string. The numbers are integers (exact as doubles below \<open>2\<^sup>5\<^sup>3\<close>);
  \<^verbatim>\<open>N / 2\<close> is the division of the reals. A call returns the new closure and the
  requests it has sent. In the last branch the body sent takes \<open>k\<close> and \<open>x\<close> from the
  state record just written.
\<close>

text \<open>\<^verbatim>\<open>x = CN > N / 2 ? 0 : CY > N / 2 ? 1 : "?"\<close>\<close>

definition proposalOutcome :: "params \<Rightarrow> val list \<Rightarrow> val" where
  "proposalOutcome p proposal =
     (if real (CN proposal) > real_of_int (N p) / 2 then Zero
      else if real (CY proposal) > real_of_int (N p) / 2 then One
      else Ambiguous)"

text \<open>
  \<^verbatim>\<open>currentState.x = CN + CY > 0 && CN > CY ? 0 : CN + CY > 0 && CN < CY ? 1 : Math.random() > 0.5 ? 0 : 1\<close>
\<close>

definition nextValue :: "real \<Rightarrow> val list \<Rightarrow> val" where
  "nextValue rnd vote =
     (if CN vote + CY vote > 0 \<and> CN vote > CY vote then Zero
      else if CN vote + CY vote > 0 \<and> CN vote < CY vote then One
      else coin rnd)"

definition onMessage ::
  "source \<Rightarrow> params \<Rightarrow> real \<Rightarrow> message \<Rightarrow> node \<Rightarrow> node \<times> (int \<times> message) list" where
  "onMessage src p rnd m s =
     (if \<not> killed (currentState s) \<and> \<not> isFaulty p then
        if msg_type m = handledPropose src then
          let proposal = pushed (proposals s) (msg_k m) (msg_x m);
              s1 = s\<lparr>proposals := (proposals s)(msg_k m \<mapsto> proposal)\<rparr>
          in if int (length proposal) \<ge> N p - F p then
               (s1, broadcast p
                      \<lparr>msg_k = msg_k m, msg_x = proposalOutcome p proposal,
                       msg_type = sentVote src\<rparr>)
             else (s1, [])
        else if msg_type m = handledVote src then
          let vote = pushed (votes s) (msg_k m) (msg_x m);
              s1 = s\<lparr>votes := (votes s)(msg_k m \<mapsto> vote)\<rparr>
          in if int (length vote) \<ge> N p - F p then
               if int (CN vote) \<ge> F p + 1 then
                 (s1\<lparr>currentState := (currentState s1)\<lparr>x := Some Zero, decided := Some True\<rparr>\<rparr>, [])
               else if int (CY vote) \<ge> F p + 1 then
                 (s1\<lparr>currentState := (currentState s1)\<lparr>x := Some One, decided := Some True\<rparr>\<rparr>, [])
               else
                 (s1\<lparr>currentState := (currentState s1)
                        \<lparr>x := Some (nextValue rnd vote), k := Some (msg_k m + 1)\<rparr>\<rparr>,
                  broadcast p
                    \<lparr>msg_k = msg_k m + 1, msg_x = nextValue rnd vote,
                     msg_type = sentPropose src\<rparr>)
             else (s1, [])
        else (s, [])
      else (s, []))"

subsection \<open>Construction, start, stop, getState\<close>

text \<open>The closure as \<^verbatim>\<open>node(...)\<close> creates it: empty tallies and the inert state record.\<close>

definition initial :: "params \<Rightarrow> node" where
  "initial p =
     \<lparr>proposals = Map.empty, votes = Map.empty,
      currentState = \<lparr>killed = False, x = Some (initialValue p), decided = Some False, k = Some 0\<rparr>\<rparr>"

text \<open>
  \<^verbatim>\<open>while (!nodesAreReady()) { await delay(100); }\<close>: \<open>ready i\<close> is what the
  \<open>i\<close>-th call of \<^verbatim>\<open>nodesAreReady\<close> answers. The loop returns the number of delays
  it has waited, and does not return when no call answers true.
\<close>

partial_function (option) awaitReady :: "(nat \<Rightarrow> bool) \<Rightarrow> nat \<Rightarrow> nat option" where
  "awaitReady ready i = (if ready i then Some i else awaitReady ready (Suc i))"

text \<open>What \<^verbatim>\<open>/start\<close> does once the loop is over (nothing is awaited after it).\<close>

definition startBody :: "source \<Rightarrow> params \<Rightarrow> node \<Rightarrow> node \<times> (int \<times> message) list" where
  "startBody src p s =
     (if \<not> isFaulty p then
        (s\<lparr>currentState := (currentState s)
              \<lparr>k := Some 1, x := Some (initialValue p), decided := Some False\<rparr>\<rparr>,
         broadcast p \<lparr>msg_k = 1, msg_x = initialValue p, msg_type = sentPropose src\<rparr>)
      else
        (s\<lparr>currentState := (currentState s)\<lparr>decided := None, x := None, k := None\<rparr>\<rparr>, []))"

definition start ::
  "source \<Rightarrow> params \<Rightarrow> (nat \<Rightarrow> bool) \<Rightarrow> node \<Rightarrow> (node \<times> (int \<times> message) list) option" where
  "start src p ready s =
     (case awaitReady ready 0 of None \<Rightarrow> None | Some _ \<Rightarrow> Some (startBody src p s))"

definition stop :: "node \<Rightarrow> node" where
  "stop s =
     s\<lparr>currentState := (currentState s)\<lparr>killed := True, x := None, decided := None, k := Some 0\<rparr>\<rparr>"

definition getState :: "params \<Rightarrow> node \<Rightarrow> NodeState" where
  "getState p s =
     (if isFaulty p then \<lparr>killed = killed (currentState s), x = None, decided = None, k = None\<rparr>
      else currentState s)"

subsection \<open>Runs\<close>

text \<open>
  The handlers run one at a time (a handler gives control back only at an \<^verbatim>\<open>await\<close>, and
  only the loop of \<^verbatim>\<open>/start\<close> has one). A run of a node is the list of the requests it
  serves: \<open>Start\<close> is the moment the loop of \<^verbatim>\<open>/start\<close> is over; a message comes with
  the draw its handler would make.
\<close>

datatype request = Start | Message message real | Stop

fun serve :: "source \<Rightarrow> params \<Rightarrow> request \<Rightarrow> node \<Rightarrow> node" where
  "serve src p Start s = fst (startBody src p s)"
| "serve src p (Message m rnd) s = fst (onMessage src p rnd m s)"
| "serve src p Stop s = stop s"

fun run :: "source \<Rightarrow> params \<Rightarrow> request list \<Rightarrow> node \<Rightarrow> node" where
  "run src p [] s = s"
| "run src p (r # rs) s = run src p rs (serve src p r s)"

subsection \<open>Messages and scenarios used as concrete inputs\<close>

definition voteMsg :: "source \<Rightarrow> int \<Rightarrow> val \<Rightarrow> message" where
  "voteMsg src r v = \<lparr>msg_k = r, msg_x = v, msg_type = handledVote src\<rparr>"

definition proposeMsg :: "source \<Rightarrow> int \<Rightarrow> val \<Rightarrow> message" where
  "proposeMsg src r v = \<lparr>msg_k = r, msg_x = v, msg_type = handledPropose src\<rparr>"

text \<open>A network of one node without faults, and one of four nodes with one fault.\<close>

definition solo :: params where
  "solo = \<lparr>nodeId = 0, N = 1, F = 0, initialValue = Zero, isFaulty = False\<rparr>"

definition quad :: params where
  "quad = \<lparr>nodeId = 0, N = 4, F = 1, initialValue = Zero, isFaulty = False\<rparr>"

definition faultyQuad :: params where
  "faultyQuad = \<lparr>nodeId = 3, N = 4, F = 1, initialValue = One, isFaulty = True\<rparr>"

definition started :: "source \<Rightarrow> node" where
  "started src = run src solo [Start] (initial solo)"

definition proposedOnce :: "source \<Rightarrow> node" where
  "proposedOnce src = run src solo [Start, Message (proposeMsg src 1 Zero) 0] (initial solo)"

definition decidedZero :: "source \<Rightarrow> node" where
  "decidedZero src = run src solo [Start, Message (voteMsg src 1 Zero) 0] (initial solo)"

definition twoVotes :: "source \<Rightarrow> node" where
  "twoVotes src =
     run src quad [Start, Message (voteMsg src 1 Zero) 0, Message (voteMsg src 1 One) 0]
       (initial quad)"

section \<open>Properties\<close>

subsection \<open>The branches of the handler\<close>

lemmas scenario_defs =
  started_def proposedOnce_def decidedZero_def twoVotes_def solo_def quad_def faultyQuad_def
  initial_def voteMsg_def proposeMsg_def

lemmas handler_defs =
  onMessage_def startBody_def stop_def pushed_def CN_def CY_def nextValue_def coin_def
  proposalOutcome_def broadcast_def Let_def


lemma onMessage_inert:
  "killed (currentState s) \<or> isFaulty p \<Longrightarrow> onMessage src p rnd m s = (s, [])"
  by (auto simp: onMessage_def)

lemma onMessage_other:
  "msg_type m \<noteq> handledPropose src \<Longrightarrow> msg_type m \<noteq> handledVote src \<Longrightarrow>
   onMessage src p rnd m s = (s, [])"
  by (simp add: onMessage_def)

lemma onMessage_propose:
  assumes "\<not> killed (currentState s)" "\<not> isFaulty p" "msg_type m = handledPropose src"
  shows "onMessage src p rnd m s =
    (s\<lparr>proposals := (proposals s)(msg_k m \<mapsto> pushed (proposals s) (msg_k m) (msg_x m))\<rparr>,
     if N p - F p \<le> int (length (pushed (proposals s) (msg_k m) (msg_x m)))
     then broadcast p \<lparr>msg_k = msg_k m,
            msg_x = proposalOutcome p (pushed (proposals s) (msg_k m) (msg_x m)),
            msg_type = sentVote src\<rparr>
     else [])"
  using assms by (simp add: onMessage_def Let_def)


subsection \<open>Counting\<close>

lemma CN_count: "CN tally = count_list tally Zero"
  by (induction tally) (simp_all add: CN_def)

lemma CY_count: "CY tally = count_list tally One"
  by (induction tally) (simp_all add: CY_def)



text \<open>The draw decides the coin, and both sides can come up.\<close>

lemma coin_sides: "coin (3 / 4) = Zero \<and> coin (1 / 4) = One \<and> coin (1 / 2) = One"
  by (simp add: coin_def)


subsection \<open>The vote rule\<close>



subsection \<open>The proposal rule in whole numbers, and the scenarios evaluated\<close>

lemma proposalOutcome_spec:
  "proposalOutcome p tally =
     (if N p < 2 * int (count_list tally Zero) then Zero
      else if N p < 2 * int (count_list tally One) then One
      else Ambiguous)"
proof -
  have "(real_of_int (N p) / 2 < real n) = (N p < 2 * int n)" for n :: nat
  proof -
    have "(real_of_int (N p) / 2 < real n) = (real_of_int (N p) < real_of_int (2 * int n))"
      by (simp add: field_simps)
    also have "\<dots> = (N p < 2 * int n)"
      by (simp only: of_int_less_iff)
    finally show ?thesis .
  qed
  then show ?thesis
    by (simp add: proposalOutcome_def CN_count CY_count)
qed


lemma proposedOnce_val:
  "proposedOnce src = \<lparr>proposals = [1 \<mapsto> [Zero]], votes = Map.empty,
      currentState = \<lparr>killed = False, x = Some Zero, decided = Some False, k = Some 1\<rparr>\<rparr>"
  by (cases src) (simp_all add: scenario_defs handler_defs)

lemma decidedZero_val:
  "decidedZero src = \<lparr>proposals = Map.empty, votes = [1 \<mapsto> [Zero]],
      currentState = \<lparr>killed = False, x = Some Zero, decided = Some True, k = Some 1\<rparr>\<rparr>"
  by (cases src) (simp_all add: scenario_defs handler_defs)

subsection \<open>After a decision\<close>

text \<open>
  C2, as the specification states it, fails. The node of one participant (\<open>N = 1\<close>,
  \<open>F = 0\<close>) that has decided 0 on the vote 0 of round 1 takes the value 1 on a vote 1 of
  round 2 (\<^verbatim>\<open>part_000\<close>), and the side of the coin on a vote \<open>?\<close> of round 3
  (\<^verbatim>\<open>node.ts\<close>): the handler has no test of \<open>decided\<close>.
\<close>

theorem decided_value_overwritten:
  "decided (currentState (decidedZero Part_000)) = Some True
   \<and> \<not> killed (currentState (decidedZero Part_000)) \<and> \<not> isFaulty solo
   \<and> x (currentState (decidedZero Part_000)) = Some Zero
   \<and> x (currentState (fst (onMessage Part_000 solo 0 (voteMsg Part_000 2 One)
          (decidedZero Part_000)))) = Some One
   \<and> decided (currentState (decidedZero Node_ts)) = Some True
   \<and> x (currentState (decidedZero Node_ts)) = Some Zero
   \<and> x (currentState (fst (onMessage Node_ts solo 0 (voteMsg Node_ts 3 Ambiguous)
          (decidedZero Node_ts)))) = Some One"
  by (simp add: decidedZero_val) (simp add: solo_def voteMsg_def handler_defs)

text \<open>
  C2, amended. Once \<open>decided = true\<close>, every call of the handler leaves \<open>decided\<close> at
  true, and leaves \<open>x\<close> as it is unless the participant is neither killed nor faulty and
  the message is a handled vote that brings the vote tally of its round to a size of at
  least \<open>N - F\<close> (then \<open>x\<close> is written again, by the vote rule).
\<close>

theorem decided_kept:
  assumes "decided (currentState s) = Some True"
  shows "decided (currentState (fst (onMessage src p rnd m s))) = Some True
    \<and> (\<not> (\<not> killed (currentState s) \<and> \<not> isFaulty p \<and> msg_type m = handledVote src
           \<and> N p - F p \<le> int (length (pushed (votes s) (msg_k m) (msg_x m))))
        \<longrightarrow> x (currentState (fst (onMessage src p rnd m s))) = x (currentState s))"
  using assms by (simp add: onMessage_def Let_def)

text \<open>A proposal for round 2 after the decision changes neither field; a vote keeps \<open>decided\<close>.\<close>

theorem decided_kept_witness:
  "decided (currentState (fst (onMessage Part_000 solo 0 (proposeMsg Part_000 2 One)
      (decidedZero Part_000)))) = Some True
   \<and> x (currentState (fst (onMessage Part_000 solo 0 (proposeMsg Part_000 2 One)
      (decidedZero Part_000)))) = Some Zero
   \<and> decided (currentState (fst (onMessage Node_ts solo 0 (voteMsg Node_ts 2 One)
      (decidedZero Node_ts)))) = Some True"
proof -
  have d: "decided (currentState (decidedZero src)) = Some True" for src
    by (simp add: decidedZero_val)
  have t: "msg_type (proposeMsg Part_000 2 One) \<noteq> handledVote Part_000"
    by (simp add: proposeMsg_def)
  show ?thesis
    using decided_kept[OF d, of Part_000 solo 0 "proposeMsg Part_000 2 One"]
      decided_kept[OF d, of Node_ts solo 0 "voteMsg Node_ts 2 One"] t
    by (simp add: decidedZero_val)
qed

subsection \<open>The vote broadcast\<close>

text \<open>
  C3, as the specification states it, fails. With \<open>N = 1\<close> and \<open>F = 0\<close> the tally of
  round 1 holds one proposal, so it is at \<open>N - F\<close> already; a second proposal makes its
  size 2, which is neither \<open>N - F\<close> nor a first crossing of it, and the vote is broadcast
  again.
\<close>

theorem propose_broadcast_repeats:
  "proposals (proposedOnce Part_000) 1 = Some [Zero]
   \<and> N solo - F solo = 1
   \<and> \<not> killed (currentState (proposedOnce Part_000)) \<and> \<not> isFaulty solo
   \<and> pushed (proposals (proposedOnce Part_000)) 1 Zero = [Zero, Zero]
   \<and> int (length (pushed (proposals (proposedOnce Part_000)) 1 Zero)) \<noteq> N solo - F solo
   \<and> \<not> int (length [Zero]) < N solo - F solo
   \<and> snd (onMessage Part_000 solo 0 (proposeMsg Part_000 1 Zero) (proposedOnce Part_000))
       = [(0, voteMsg Part_000 1 Zero)]"
  by (simp add: proposedOnce_val) (simp add: solo_def voteMsg_def proposeMsg_def handler_defs)

text \<open>
  C3, amended. For a participant that is neither faulty nor killed, a handled proposal
  message of round \<open>k\<close> sends the vote message of round \<open>k\<close> and value \<open>x'\<close> to each of
  the indices \<open>0, \<dots>, N - 1\<close> if and only if the size of the proposal tally of round
  \<open>k\<close>, the new entry counted, is at least \<open>N - F\<close> (so on every further proposal of
  the round too), and sends nothing below; \<open>x'\<close> is 0 if twice the number of 0 entries
  exceeds \<open>N\<close>, else 1 if twice the number of 1 entries exceeds \<open>N\<close>, else \<open>?\<close>. The tag
  of the message is the one the file sends.
\<close>

theorem propose_broadcast_rule:
  assumes "\<not> killed (currentState s)" and "\<not> isFaulty p"
    and "msg_type m = handledPropose src"
    and "tally = pushed (proposals s) (msg_k m) (msg_x m)"
  shows "snd (onMessage src p rnd m s) =
     (if N p - F p \<le> int (length tally) then
        map (\<lambda>i. (i, \<lparr>msg_k = msg_k m,
                      msg_x = (if N p < 2 * int (count_list tally Zero) then Zero
                               else if N p < 2 * int (count_list tally One) then One
                               else Ambiguous),
                      msg_type = sentVote src\<rparr>)) [0 .. N p - 1]
      else [])"
  by (simp add: onMessage_propose[OF assms(1-3)] assms(4) broadcast_def proposalOutcome_spec)

theorem propose_broadcast_rule_witness:
  "snd (onMessage Part_000 solo 0 (proposeMsg Part_000 1 Zero) (proposedOnce Part_000))
       = [(0, \<lparr>msg_k = 1, msg_x = Zero, msg_type = ''vote''\<rparr>)]
   \<and> snd (onMessage Node_ts quad 0 (proposeMsg Node_ts 1 One) (initial quad)) = []"
proof -
  have a: "\<not> killed (currentState (proposedOnce Part_000))" "\<not> isFaulty solo"
    "msg_type (proposeMsg src r v) = handledPropose src"
    "\<not> killed (currentState (initial quad))" "\<not> isFaulty quad" for src r v
    by (simp_all add: proposedOnce_val) (simp_all add: scenario_defs)
  show ?thesis
    using propose_broadcast_rule[where s = "proposedOnce Part_000" and p = solo and rnd = 0
          and m = "proposeMsg Part_000 1 Zero" and src = Part_000, OF a(1,2,3) refl]
      propose_broadcast_rule[where s = "initial quad" and p = quad and rnd = 0
          and m = "proposeMsg Node_ts 1 One" and src = Node_ts, OF a(4,5,3) refl]
    by (simp add: proposedOnce_val pushed_def) (simp add: scenario_defs pushed_def)
qed

subsection \<open>The round number\<close>



subsection \<open>Start\<close>

text \<open>
  The loop of \<^verbatim>\<open>/start\<close> returns as soon as one call of \<^verbatim>\<open>nodesAreReady\<close> answers
  true, and never when none does.
\<close>

lemma awaitReady_returns: "ready (i + d) \<Longrightarrow> \<exists>j. awaitReady ready i = Some j"
proof (induction d arbitrary: i)
  case 0
  then show ?case by (subst awaitReady.simps) simp
next
  case (Suc d)
  from Suc.prems have "ready (Suc i + d)" by simp
  then obtain j where "awaitReady ready (Suc i) = Some j"
    using Suc.IH by blast
  then show ?case by (subst awaitReady.simps) simp
qed

lemma start_returns: "ready n \<Longrightarrow> start src p ready s = Some (startBody src p s)"
  using awaitReady_returns[of ready 0 n] by (auto simp: start_def)

lemma awaitReady_sound:
  assumes "awaitReady ready i = Some j"
  shows "ready j \<and> i \<le> j"
  using assms
proof (induction rule: awaitReady.raw_induct[rotated 1, consumes 1, case_names step])
  case (step rec ready i j)
  show ?case
  proof (cases "ready i")
    case True
    with step.hyps show ?thesis by simp
  next
    case False
    with step.hyps have "rec ready (Suc i) = Some j" by simp
    then have "ready j \<and> Suc i \<le> j" by (rule step.IH)
    then show ?thesis by simp
  qed
qed

lemma awaitReady_never: "(\<And>j. \<not> ready j) \<Longrightarrow> awaitReady ready i = None"
  using awaitReady_sound[of ready i] by (cases "awaitReady ready i") auto

lemma start_never: "(\<And>j. \<not> ready j) \<Longrightarrow> start src p ready s = None"
  by (simp add: start_def awaitReady_never)

lemma broadcast_receivers: "map fst (broadcast p m) = [0 .. N p - 1]"
  by (simp add: broadcast_def comp_def)

lemma broadcast_bodies: "map snd (broadcast p m) = replicate (nat (N p)) m"
  by (simp add: broadcast_def comp_def map_replicate_const)

lemma startBody_live:
  assumes "\<not> isFaulty p"
  shows "currentState (fst (startBody src p s)) =
           (currentState s)\<lparr>k := Some 1, x := Some (initialValue p), decided := Some False\<rparr>
    \<and> map fst (snd (startBody src p s)) = [0 .. N p - 1]
    \<and> map snd (snd (startBody src p s)) =
         replicate (nat (N p)) \<lparr>msg_k = 1, msg_x = initialValue p, msg_type = sentPropose src\<rparr>"
  using assms by (simp add: startBody_def broadcast_receivers broadcast_bodies)

lemma startBody_faulty:
  assumes "isFaulty p"
  shows "startBody src p s =
    (s\<lparr>currentState := (currentState s)\<lparr>decided := None, x := None, k := None\<rparr>\<rparr>, [])"
  using assms by (simp add: startBody_def)

lemma start_part_000_heard:
  assumes "\<not> isFaulty p" and "(i, m) \<in> set (snd (startBody Part_000 p s))"
  shows "m = proposeMsg Part_000 1 (initialValue p) \<and> 0 \<le> i \<and> i < N p"
  using assms by (auto simp: startBody_def broadcast_def proposeMsg_def)

text \<open>
  C5 says that the start of a participant that is not faulty sets \<open>k = 1\<close>,
  \<open>x = initialValue\<close>, \<open>decided = false\<close> and sends \<open>N\<close> messages of the propose kind
  with \<open>k = 1\<close> and \<open>x = initialValue\<close>, one to each participant, and that the start of a
  faulty one sets the three fields to null and sends nothing. The state and the count
  are as said in both files (\<open>startBody_live\<close>, \<open>startBody_faulty\<close>), and
  \<^verbatim>\<open>part_000\<close> sends the kind its handler takes for a proposal
  (\<open>start_part_000_heard\<close>). In \<^verbatim>\<open>node.ts\<close> the four messages of a start with
  \<open>N = 4\<close> carry the tag \<^verbatim>\<open>"2P"\<close>, which is not the tag \<^verbatim>\<open>"Propose"\<close> that the
  handler of the same file tests for: the handler drops each of them, where the
  handler of \<^verbatim>\<open>part_000\<close> tallies the proposal that its start sends.
\<close>

theorem start_of_node_ts_unheard:
  "start Node_ts quad (\<lambda>i. True) (initial quad) =
     Some (\<lparr>proposals = Map.empty, votes = Map.empty,
             currentState = \<lparr>killed = False, x = Some Zero, decided = Some False, k = Some 1\<rparr>\<rparr>,
           map (\<lambda>i. (i, \<lparr>msg_k = 1, msg_x = Zero, msg_type = ''2P''\<rparr>)) [0, 1, 2, 3])
   \<and> ''2P'' \<noteq> handledPropose Node_ts
   \<and> onMessage Node_ts quad 0 \<lparr>msg_k = 1, msg_x = Zero, msg_type = ''2P''\<rparr>
        (fst (startBody Node_ts quad (initial quad)))
      = (fst (startBody Node_ts quad (initial quad)), [])
   \<and> snd (startBody Part_000 quad (initial quad)) =
       map (\<lambda>i. (i, proposeMsg Part_000 1 Zero)) [0, 1, 2, 3]
   \<and> proposals (fst (onMessage Part_000 quad 0 (proposeMsg Part_000 1 Zero)
        (fst (startBody Part_000 quad (initial quad))))) 1 = Some [Zero]"
proof -
  have "start Node_ts quad (\<lambda>i. True) (initial quad) = Some (startBody Node_ts quad (initial quad))"
    by (rule start_returns[of _ 0]) simp
  moreover have "[0 .. 3] = [0, 1, 2, 3::int]"
    by (simp add: upto.simps)
  ultimately show ?thesis
    by (simp add: onMessage_other)
      (simp add: startBody_def broadcast_def quad_def proposeMsg_def initial_def
         onMessage_def pushed_def Let_def)
qed

subsection \<open>Faulty participants\<close>

lemma serve_killed: "killed (currentState (serve src p r s)) = (killed (currentState s) \<or> r = Stop)"
  by (cases r) (auto simp: startBody_def onMessage_def stop_def Let_def)

lemma run_killed: "killed (currentState (run src p rs s)) = (killed (currentState s) \<or> Stop \<in> set rs)"
  by (induction rs arbitrary: s) (auto simp: serve_killed)

text \<open>
  C6. For a participant constructed faulty, after any list of requests (starts,
  messages, stops) served from any state, \<open>getState\<close> answers the current killed flag
  with \<open>x\<close>, \<open>decided\<close> and \<open>k\<close> null; from the state of the construction the flag
  tells whether a stop has been served.
\<close>

theorem faulty_getState:
  assumes "isFaulty p"
  shows "getState p (run src p rs s) =
      \<lparr>killed = killed (currentState (run src p rs s)), x = None, decided = None, k = None\<rparr>
    \<and> killed (currentState (run src p rs (initial p))) = (Stop \<in> set rs)"
  using assms by (simp add: getState_def run_killed) (simp add: initial_def)

theorem faulty_getState_witness:
  "getState faultyQuad (run Part_000 faultyQuad
      [Message (proposeMsg Part_000 1 One) 0, Start, Message (voteMsg Part_000 1 One) 0]
      (initial faultyQuad))
     = \<lparr>killed = False, x = None, decided = None, k = None\<rparr>
   \<and> getState faultyQuad (run Node_ts faultyQuad
      [Start, Stop, Message (voteMsg Node_ts 1 One) 0] (initial faultyQuad))
     = \<lparr>killed = True, x = None, decided = None, k = None\<rparr>"
proof -
  have f: "isFaulty faultyQuad" by (simp add: faultyQuad_def)
  show ?thesis
    using faulty_getState[OF f, of Part_000
        "[Message (proposeMsg Part_000 1 One) 0, Start, Message (voteMsg Part_000 1 One) 0]"
        "initial faultyQuad"]
      faulty_getState[OF f, of Node_ts "[Start, Stop, Message (voteMsg Node_ts 1 One) 0]"
        "initial faultyQuad"]
    by simp
qed

subsection \<open>Stop\<close>

text \<open>
  C7. \<open>stop\<close> sets \<open>killed = true\<close>, \<open>x = null\<close>, \<open>decided = null\<close> and \<open>k = 0\<close>, and
  touches no tally; after it, whatever requests are served next, a call of the handler
  changes neither the tallies nor the state record and sends nothing.
\<close>

theorem stop_then_inert:
  "currentState (stop s) = \<lparr>killed = True, x = None, decided = None, k = Some 0\<rparr>
   \<and> proposals (stop s) = proposals s \<and> votes (stop s) = votes s
   \<and> onMessage src p rnd m (run src p rs (stop s)) = (run src p rs (stop s), [])"
proof -
  have "killed (currentState (run src p rs (stop s)))"
    by (simp add: run_killed stop_def)
  then show ?thesis
    by (simp add: onMessage_inert) (simp add: stop_def)
qed

subsection \<open>Messages of another kind\<close>



subsection \<open>What a proposal leaves alone\<close>

text \<open>
  C9. For a participant that is neither faulty nor killed, a handled proposal message
  leaves the state record (\<open>killed\<close>, \<open>x\<close>, \<open>decided\<close>, \<open>k\<close>) and the vote tallies as
  they are; the proposal tally of the round of the message gets the value at its end.
\<close>

theorem propose_frame:
  assumes "\<not> killed (currentState s)" and "\<not> isFaulty p"
    and "msg_type m = handledPropose src"
  shows "currentState (fst (onMessage src p rnd m s)) = currentState s
    \<and> votes (fst (onMessage src p rnd m s)) = votes s
    \<and> proposals (fst (onMessage src p rnd m s)) =
        (proposals s)(msg_k m \<mapsto> (case proposals s (msg_k m) of None \<Rightarrow> [] | Some l \<Rightarrow> l) @ [msg_x m])"
  by (simp add: onMessage_propose[OF assms] pushed_def)

theorem propose_frame_witness:
  "currentState (fst (onMessage Part_000 solo 0 (proposeMsg Part_000 1 One) (proposedOnce Part_000)))
     = \<lparr>killed = False, x = Some Zero, decided = Some False, k = Some 1\<rparr>
   \<and> proposals (fst (onMessage Part_000 solo 0 (proposeMsg Part_000 1 One) (proposedOnce Part_000)))
     = [1 \<mapsto> [Zero, One]]
   \<and> votes (fst (onMessage Part_000 solo 0 (proposeMsg Part_000 1 One) (proposedOnce Part_000)))
     = Map.empty"
proof -
  have a: "\<not> killed (currentState (proposedOnce Part_000))" "\<not> isFaulty solo"
    "msg_type (proposeMsg Part_000 1 One) = handledPropose Part_000"
    by (simp_all add: proposedOnce_val) (simp_all add: scenario_defs)
  show ?thesis
    using propose_frame[OF a, of 0]
    by (simp add: proposedOnce_val) (simp add: proposeMsg_def)
qed

subsection \<open>What a decision leaves alone\<close>



end
